theory Spec2Isabelle
  imports Main "HOL-Library.Word"
begin

section \<open>PublicServiceFeedbackFHE: data model\<close>

text \<open>
  A shallow embedding of \<^verbatim>\<open>contracts/PublicServiceFeedbackFHE.sol\<close>.
  Solidity value types are machine words; a \<^verbatim>\<open>mapping\<close> is a total function
  (every key holds the zero value until written); a \<^verbatim>\<open>require\<close> that fails, a
  checked-arithmetic panic and a failed \<^verbatim>\<open>abi.decode\<close> are error values, and a call
  that ends in an error leaves the storage as it was (the transaction reverts).
\<close>

type_synonym uint32 = "32 word"
type_synonym uint256 = "256 word"
type_synonym address = "160 word"
type_synonym bytes = "8 word list"

text \<open>
  \<^verbatim>\<open>euint32\<close> is a handle of the FHE library, which the contract imports and the
  repository does not contain. The handle is identified with the 32-bit plaintext it
  encrypts: \<open>None\<close> is the zero handle, for which \<^verbatim>\<open>FHE.isInitialized\<close> is false,
  \<open>Some v\<close> a handle whose ciphertext decrypts to \<open>v\<close>.
\<close>

type_synonym euint32 = "uint32 option"

record EncryptedFeedback =
  id_fb :: uint256
  citizen :: address
  encryptedServiceType :: euint32
  encryptedRating :: euint32
  encryptedResponseTime :: euint32
  encryptedComment :: euint32
  timestamp :: uint256

record ServiceAggregate =
  encryptedTotalRating :: euint32
  encryptedResponseAvg :: euint32
  encryptedFeedbackCount :: euint32
  encryptedImprovementScore :: euint32

record DecryptedAggregate =
  avgRating :: uint32
  avgResponseTime :: uint32
  feedbackCount_d :: uint32
  improvementScore :: uint32
  isRevealed :: bool

datatype event =
    FeedbackSubmitted uint256 address
  | AggregationUpdated uint32
  | AggregateDecrypted uint32

text \<open>
  The storage of the contract. \<open>counterRequest\<close> is the request counter of the
  decryption oracle and \<open>events\<close> the log of emitted events; both are kept with the
  storage so that every effect of a call is a change of this record.
\<close>

record contract_state =
  feedbackCount :: uint256
  feedbacks :: "uint256 \<Rightarrow> EncryptedFeedback"
  serviceAggregates :: "uint32 \<Rightarrow> ServiceAggregate"
  decryptedAggregates :: "uint32 \<Rightarrow> DecryptedAggregate"
  citizenFeedbacks :: "address \<Rightarrow> uint256 list"
  authorizedManagers :: "address \<Rightarrow> bool"
  requestToFeedbackId :: "uint256 \<Rightarrow> uint256"
  requestToServiceType :: "uint256 \<Rightarrow> uint32"
  govAdmin :: address
  counterRequest :: uint256
  events :: "event list"

text \<open>The part of the transaction context the contract reads.\<close>

record env =
  sender :: address
  block_timestamp :: uint256

text \<open>
  The ways a call can revert. The first five are the \<^verbatim>\<open>require\<close> messages of the
  source: "Not admin", "Not authorized", "No data", "Already decrypted" and
  "Invalid request". \<open>ProofInvalid\<close> is the revert of \<^verbatim>\<open>FHE.checkSignatures\<close>,
  \<open>DecodeFailure\<close> the revert of \<^verbatim>\<open>abi.decode\<close>, and the two panics are those of
  Solidity 0.8 checked arithmetic.
\<close>

datatype error =
    NotAdmin
  | NotAuthorized
  | NoData
  | AlreadyDecrypted
  | InvalidRequest
  | ProofInvalid
  | DecodeFailure
  | PanicDivisionByZero
  | PanicOverflow

section \<open>The FHE library, as the contract uses it\<close>

text \<open>
  The library is an external dependency. Its operations are modelled on plaintexts, as
  wrapping 32-bit arithmetic that never fails. An operand that is the zero handle is
  read as an encryption of 0, and every result is an initialized handle. A division by
  an encrypted zero does not fail either: it yields the largest 32-bit value. No result
  below depends on the value chosen for that case.
\<close>

definition FHE_isInitialized :: "euint32 \<Rightarrow> bool" where
  "FHE_isInitialized h = (h \<noteq> None)"

definition FHE_asEuint32 :: "uint32 \<Rightarrow> euint32" where
  "FHE_asEuint32 v = Some v"

definition plain :: "euint32 \<Rightarrow> uint32" where
  "plain h = (case h of None \<Rightarrow> 0 | Some v \<Rightarrow> v)"

definition FHE_add :: "euint32 \<Rightarrow> euint32 \<Rightarrow> euint32" where
  "FHE_add a b = Some (plain a + plain b)"

definition FHE_sub :: "euint32 \<Rightarrow> euint32 \<Rightarrow> euint32" where
  "FHE_sub a b = Some (plain a - plain b)"

definition FHE_mul :: "euint32 \<Rightarrow> euint32 \<Rightarrow> euint32" where
  "FHE_mul a b = Some (plain a * plain b)"

definition FHE_div :: "euint32 \<Rightarrow> euint32 \<Rightarrow> euint32" where
  "FHE_div a b = Some (if plain b = 0 then - 1 else plain a div plain b)"

text \<open>
  \<^verbatim>\<open>FHE.requestDecryption\<close> hands the ciphertext handles to the off-chain oracle
  and returns a fresh request id, taken from a counter. It never fails.
\<close>

definition FHE_requestDecryption ::
    "euint32 list \<Rightarrow> contract_state \<Rightarrow> uint256 \<times> contract_state" where
  "FHE_requestDecryption ciphertexts s =
     (counterRequest s, s\<lparr>counterRequest := counterRequest s + 1\<rparr>)"

section \<open>ABI decoding of the cleartext bundle\<close>

text \<open>
  \<^verbatim>\<open>abi.decode(cleartexts, (uint32, uint32, uint32, uint32))\<close> reads four 32-byte
  big-endian words. It reverts when fewer than 128 bytes are given and when a word does
  not fit 32 bits; bytes after the fourth word are ignored.
\<close>

definition be_word :: "bytes \<Rightarrow> uint256" where
  "be_word bs = foldl (\<lambda>acc b. acc * 256 + ucast b) 0 bs"

definition abi_word :: "bytes \<Rightarrow> nat \<Rightarrow> uint256" where
  "abi_word bs i = be_word (take 32 (drop (32 * i) bs))"

definition decode_uint32 :: "bytes \<Rightarrow> nat \<Rightarrow> uint32 option" where
  "decode_uint32 bs i =
     (let w = abi_word bs i in if w \<le> 4294967295 then Some (ucast w) else None)"

definition abi_decode :: "bytes \<Rightarrow> (uint32 \<times> uint32 \<times> uint32 \<times> uint32) option" where
  "abi_decode bs =
     (if length bs < 128 then None
      else case (decode_uint32 bs 0, decode_uint32 bs 1, decode_uint32 bs 2, decode_uint32 bs 3) of
             (Some a, Some b, Some c, Some d) \<Rightarrow> Some (a, b, c, d)
           | _ \<Rightarrow> None)"

text \<open>The encoding of one \<^verbatim>\<open>uint32\<close>, used to write concrete bundles.\<close>

definition abi_encode_uint32 :: "uint32 \<Rightarrow> bytes" where
  "abi_encode_uint32 v =
     replicate 28 0 @
     [ucast (drop_bit 24 v), ucast (drop_bit 16 v), ucast (drop_bit 8 v), ucast v]"

definition abi_encode :: "uint32 \<Rightarrow> uint32 \<Rightarrow> uint32 \<Rightarrow> uint32 \<Rightarrow> bytes" where
  "abi_encode a b c d =
     abi_encode_uint32 a @ abi_encode_uint32 b @ abi_encode_uint32 c @ abi_encode_uint32 d"

section \<open>The contract's functions\<close>

definition zero_feedback :: EncryptedFeedback where
  "zero_feedback = \<lparr>id_fb = 0, citizen = 0, encryptedServiceType = None,
     encryptedRating = None, encryptedResponseTime = None, encryptedComment = None,
     timestamp = 0\<rparr>"

definition zero_aggregate :: ServiceAggregate where
  "zero_aggregate = \<lparr>encryptedTotalRating = None, encryptedResponseAvg = None,
     encryptedFeedbackCount = None, encryptedImprovementScore = None\<rparr>"

definition zero_decrypted :: DecryptedAggregate where
  "zero_decrypted = \<lparr>avgRating = 0, avgResponseTime = 0, feedbackCount_d = 0,
     improvementScore = 0, isRevealed = False\<rparr>"

text \<open>The constructor: empty storage, the deployer becomes \<open>govAdmin\<close>.\<close>

definition constructor :: "env \<Rightarrow> contract_state" where
  "constructor e = \<lparr>feedbackCount = 0, feedbacks = (\<lambda>_. zero_feedback),
     serviceAggregates = (\<lambda>_. zero_aggregate),
     decryptedAggregates = (\<lambda>_. zero_decrypted),
     citizenFeedbacks = (\<lambda>_. []), authorizedManagers = (\<lambda>_. False),
     requestToFeedbackId = (\<lambda>_. 0), requestToServiceType = (\<lambda>_. 0),
     govAdmin = sender e, counterRequest = 0, events = []\<rparr>"

definition authorizeManager :: "env \<Rightarrow> address \<Rightarrow> contract_state \<Rightarrow> error + contract_state" where
  "authorizeManager e manager s =
     (if sender e \<noteq> govAdmin s then Inl NotAdmin
      else Inr (s\<lparr>authorizedManagers := (authorizedManagers s)(manager := True)\<rparr>))"

definition submitEncryptedFeedback ::
    "env \<Rightarrow> euint32 \<Rightarrow> euint32 \<Rightarrow> euint32 \<Rightarrow> euint32 \<Rightarrow> contract_state \<Rightarrow> error + contract_state" where
  "submitEncryptedFeedback e encServiceType encRating encResponseTime encComment s =
     (if feedbackCount s = - 1 then Inl PanicOverflow
      else
        let newId = feedbackCount s + 1 in
        Inr (s\<lparr>feedbackCount := newId,
               feedbacks := (feedbacks s)(newId :=
                 \<lparr>id_fb = newId, citizen = sender e,
                  encryptedServiceType = encServiceType,
                  encryptedRating = encRating,
                  encryptedResponseTime = encResponseTime,
                  encryptedComment = encComment,
                  timestamp = block_timestamp e\<rparr>),
               citizenFeedbacks := (citizenFeedbacks s)
                 (sender e := citizenFeedbacks s (sender e) @ [newId]),
               events := events s @ [FeedbackSubmitted newId (sender e)]\<rparr>))"

definition calculateImprovementScore :: "euint32 \<Rightarrow> euint32 \<Rightarrow> euint32 \<Rightarrow> euint32" where
  "calculateImprovementScore rating responseTime currentScore =
     (let ratingImpact = FHE_mul rating (FHE_asEuint32 20);
          responseImpact = FHE_sub (FHE_asEuint32 100)
                             (FHE_div responseTime (FHE_asEuint32 10));
          newContribution = FHE_div (FHE_add ratingImpact responseImpact) (FHE_asEuint32 2)
      in FHE_div (FHE_add currentScore newContribution) (FHE_asEuint32 2))"

text \<open>
  The body of \<^verbatim>\<open>updateServiceAggregates\<close> on the storage struct \<open>aggregate\<close>, one
  binding for each assignment of the source, in the source's order. The count is
  stored (\<open>a2\<close>) before \<open>totalResponse\<close> reads \<^verbatim>\<open>aggregate.encryptedFeedbackCount\<close>.
\<close>

definition update_aggregate :: "EncryptedFeedback \<Rightarrow> ServiceAggregate \<Rightarrow> ServiceAggregate" where
  "update_aggregate feedback aggregate =
     (let a0 = (if \<not> FHE_isInitialized (encryptedFeedbackCount aggregate)
                then aggregate\<lparr>encryptedTotalRating := FHE_asEuint32 0,
                                encryptedResponseAvg := FHE_asEuint32 0,
                                encryptedFeedbackCount := FHE_asEuint32 0,
                                encryptedImprovementScore := FHE_asEuint32 0\<rparr>
                else aggregate);
          a1 = a0\<lparr>encryptedTotalRating :=
                    FHE_add (encryptedTotalRating a0) (encryptedRating feedback)\<rparr>;
          newCount = FHE_add (encryptedFeedbackCount a1) (FHE_asEuint32 1);
          a2 = a1\<lparr>encryptedFeedbackCount := newCount\<rparr>;
          totalResponse = FHE_add
                            (FHE_mul (encryptedResponseAvg a2) (encryptedFeedbackCount a2))
                            (encryptedResponseTime feedback);
          a3 = a2\<lparr>encryptedResponseAvg := FHE_div totalResponse newCount\<rparr>
      in a3\<lparr>encryptedImprovementScore :=
               calculateImprovementScore (encryptedRating feedback)
                 (encryptedResponseTime feedback) (encryptedImprovementScore a3)\<rparr>)"

definition updateServiceAggregates :: "uint256 \<Rightarrow> contract_state \<Rightarrow> contract_state" where
  "updateServiceAggregates feedbackId s =
     (let feedback = feedbacks s feedbackId;
          serviceType = 1
      in s\<lparr>serviceAggregates := (serviceAggregates s)
              (serviceType := update_aggregate feedback (serviceAggregates s serviceType)),
            events := events s @ [AggregationUpdated serviceType]\<rparr>)"

definition requestAggregateDecryption ::
    "env \<Rightarrow> uint32 \<Rightarrow> contract_state \<Rightarrow> error + contract_state" where
  "requestAggregateDecryption e serviceType s =
     (if \<not> authorizedManagers s (sender e) then Inl NotAuthorized
      else
        let aggregate = serviceAggregates s serviceType in
        if \<not> FHE_isInitialized (encryptedFeedbackCount aggregate) then Inl NoData
        else if isRevealed (decryptedAggregates s serviceType) then Inl AlreadyDecrypted
        else
          let ciphertexts = [encryptedTotalRating aggregate, encryptedResponseAvg aggregate,
                             encryptedFeedbackCount aggregate,
                             encryptedImprovementScore aggregate];
              (reqId, s1) = FHE_requestDecryption ciphertexts s
          in Inr (s1\<lparr>requestToServiceType := (requestToServiceType s1)(reqId := serviceType)\<rparr>))"

text \<open>
  \<^verbatim>\<open>FHE.checkSignatures\<close> belongs to the FHE library: it is the parameter
  \<open>chk\<close>, true when the proof verifies for the request id and the cleartexts, and the
  call reverts when it is false.
\<close>

definition decryptAggregateData ::
    "(uint256 \<Rightarrow> bytes \<Rightarrow> bytes \<Rightarrow> bool) \<Rightarrow> env \<Rightarrow> uint256 \<Rightarrow> bytes \<Rightarrow> bytes \<Rightarrow>
     contract_state \<Rightarrow> error + contract_state" where
  "decryptAggregateData chk e requestId cleartexts prf s =
     (let serviceType = requestToServiceType s requestId in
      if serviceType = 0 then Inl InvalidRequest
      else if isRevealed (decryptedAggregates s serviceType) then Inl AlreadyDecrypted
      else if \<not> chk requestId cleartexts prf then Inl ProofInvalid
      else case abi_decode cleartexts of
        None \<Rightarrow> Inl DecodeFailure
      | Some (totalRating, avgResponse, count, impScore) \<Rightarrow>
          if count = 0 then Inl PanicDivisionByZero
          else Inr (s\<lparr>decryptedAggregates := (decryptedAggregates s)
                        (serviceType := (decryptedAggregates s serviceType)
                           \<lparr>avgRating := totalRating div count,
                            avgResponseTime := avgResponse,
                            feedbackCount_d := count,
                            improvementScore := impScore,
                            isRevealed := True\<rparr>),
                      events := events s @ [AggregateDecrypted serviceType]\<rparr>))"

section \<open>Transactions\<close>

datatype call =
    AuthorizeManager address
  | SubmitEncryptedFeedback euint32 euint32 euint32 euint32
  | UpdateServiceAggregates uint256
  | RequestAggregateDecryption uint32
  | DecryptAggregateData uint256 bytes bytes

fun exec ::
    "(uint256 \<Rightarrow> bytes \<Rightarrow> bytes \<Rightarrow> bool) \<Rightarrow> env \<Rightarrow> call \<Rightarrow> contract_state \<Rightarrow> error + contract_state" where
  "exec chk e (AuthorizeManager m) s = authorizeManager e m s"
| "exec chk e (SubmitEncryptedFeedback t r rt c) s = submitEncryptedFeedback e t r rt c s"
| "exec chk e (UpdateServiceAggregates i) s = Inr (updateServiceAggregates i s)"
| "exec chk e (RequestAggregateDecryption t) s = requestAggregateDecryption e t s"
| "exec chk e (DecryptAggregateData r ct p) s = decryptAggregateData chk e r ct p s"

text \<open>
  The five functions above are the ones that write storage; every other public
  function of the contract is declared \<^verbatim>\<open>view\<close>. A call that reverts leaves the
  storage unchanged.
\<close>

definition transact ::
    "(uint256 \<Rightarrow> bytes \<Rightarrow> bytes \<Rightarrow> bool) \<Rightarrow> env \<Rightarrow> call \<Rightarrow> contract_state \<Rightarrow> contract_state" where
  "transact chk e c s = (case exec chk e c s of Inl _ \<Rightarrow> s | Inr s' \<Rightarrow> s')"

fun run ::
    "(uint256 \<Rightarrow> bytes \<Rightarrow> bytes \<Rightarrow> bool) \<Rightarrow> (env \<times> call) list \<Rightarrow> contract_state \<Rightarrow> contract_state" where
  "run chk [] s = s"
| "run chk ((e, c) # txs) s = run chk txs (transact chk e c s)"

text \<open>The states the contract can be in: deployed, then any calls by any callers.\<close>

inductive reachable :: "(uint256 \<Rightarrow> bytes \<Rightarrow> bytes \<Rightarrow> bool) \<Rightarrow> contract_state \<Rightarrow> bool"
  for chk :: "uint256 \<Rightarrow> bytes \<Rightarrow> bytes \<Rightarrow> bool" where
  reachable_init: "reachable chk (constructor e)"
| reachable_step: "reachable chk s \<Longrightarrow> reachable chk (transact chk e c s)"

section \<open>The accumulator as the specification words it\<close>

text \<open>
  The update rule in the specification's own words (section 4.2, steps 1 to 5), for
  comparison with \<open>update_aggregate\<close>: step 4 multiplies the running average by the
  count before the update.
\<close>

definition updateAggregate_spec :: "EncryptedFeedback \<Rightarrow> ServiceAggregate \<Rightarrow> ServiceAggregate" where
  "updateAggregate_spec feedback aggregate =
     (let a = (if \<not> FHE_isInitialized (encryptedFeedbackCount aggregate)
               then \<lparr>encryptedTotalRating = FHE_asEuint32 0,
                     encryptedResponseAvg = FHE_asEuint32 0,
                     encryptedFeedbackCount = FHE_asEuint32 0,
                     encryptedImprovementScore = FHE_asEuint32 0\<rparr>
               else aggregate);
          rating = encryptedRating feedback;
          responseTime = encryptedResponseTime feedback;
          count' = FHE_add (encryptedFeedbackCount a) (FHE_asEuint32 1)
      in \<lparr>encryptedTotalRating = FHE_add (encryptedTotalRating a) rating,
          encryptedResponseAvg =
            FHE_div (FHE_add (FHE_mul (encryptedResponseAvg a) (encryptedFeedbackCount a))
                       responseTime) count',
          encryptedFeedbackCount = count',
          encryptedImprovementScore =
            FHE_div (FHE_add
                       (FHE_div (FHE_add (FHE_mul rating (FHE_asEuint32 20))
                                   (FHE_sub (FHE_asEuint32 100)
                                      (FHE_div responseTime (FHE_asEuint32 10))))
                          (FHE_asEuint32 2))
                       (encryptedImprovementScore a))
              (FHE_asEuint32 2)\<rparr>)"

text \<open>The mean of the response times submitted so far, rounded down.\<close>

definition running_mean :: "nat list \<Rightarrow> nat" where
  "running_mean xs = sum_list xs div length xs"

section \<open>A concrete run\<close>

text \<open>
  The scenario of the specification's section 8: an administrator (address 1) deploys,
  a citizen (address 3) submits three feedback records with ratings 5, 3, 4 and
  response times 10, 30, 20, each aggregated once; then a manager (address 2) is
  authorized and requests the reveal. The sample oracle accepts the proof \<open>[1]\<close> and
  no other.
\<close>

definition sample_oracle :: "uint256 \<Rightarrow> bytes \<Rightarrow> bytes \<Rightarrow> bool" where
  "sample_oracle requestId cleartexts prf = (prf = [1])"

definition admin_env :: env where
  "admin_env = \<lparr>sender = 1, block_timestamp = 1000\<rparr>"

definition manager_env :: env where
  "manager_env = \<lparr>sender = 2, block_timestamp = 2000\<rparr>"

definition citizen_env :: env where
  "citizen_env = \<lparr>sender = 3, block_timestamp = 1500\<rparr>"

definition s_first :: contract_state where
  "s_first = run sample_oracle
     [(citizen_env, SubmitEncryptedFeedback (Some 1) (Some 5) (Some 10) (Some 0)),
      (citizen_env, UpdateServiceAggregates 1),
      (citizen_env, SubmitEncryptedFeedback (Some 1) (Some 3) (Some 30) (Some 0))]
     (constructor admin_env)"

definition s_second :: contract_state where
  "s_second = run sample_oracle
     [(citizen_env, UpdateServiceAggregates 2),
      (citizen_env, SubmitEncryptedFeedback (Some 1) (Some 4) (Some 20) (Some 0))]
     s_first"

definition s_accumulated :: contract_state where
  "s_accumulated = run sample_oracle [(citizen_env, UpdateServiceAggregates 3)] s_second"

definition s_authorized :: contract_state where
  "s_authorized = run sample_oracle [(admin_env, AuthorizeManager 2)] s_accumulated"

definition s_pending :: contract_state where
  "s_pending = run sample_oracle [(manager_env, RequestAggregateDecryption 1)] s_authorized"

definition s_revealed :: contract_state where
  "s_revealed = run sample_oracle
     [(citizen_env, DecryptAggregateData 0 (abi_encode 12 31 3 76) [1])] s_pending"

section \<open>Invariant of the reachable states\<close>

text \<open>
  An aggregate whose count is uninitialized has an uninitialized total; a revealed
  snapshot belongs to a service type other than 0 whose aggregate exists; a request id
  bound to a service type other than 0 is bound to one whose aggregate exists.
\<close>

definition storage_inv :: "contract_state \<Rightarrow> bool" where
  "storage_inv s =
     ((\<forall>st. encryptedFeedbackCount (serviceAggregates s st) = None \<longrightarrow>
            encryptedTotalRating (serviceAggregates s st) = None) \<and>
      (\<forall>st. isRevealed (decryptedAggregates s st) \<longrightarrow>
            st \<noteq> 0 \<and> FHE_isInitialized (encryptedFeedbackCount (serviceAggregates s st))) \<and>
      (\<forall>r. requestToServiceType s r \<noteq> 0 \<longrightarrow>
            FHE_isInitialized
              (encryptedFeedbackCount (serviceAggregates s (requestToServiceType s r)))))"

section \<open>Properties of the accumulator and of the reveal protocol\<close>

subsection \<open>Basic facts\<close>

lemma plain_simps [simp]: "plain None = 0" "plain (Some v) = v"
  by (simp_all add: plain_def)

lemmas FHE_defs = FHE_isInitialized_def FHE_asEuint32_def FHE_add_def FHE_sub_def
  FHE_mul_def FHE_div_def

lemma update_aggregate_count:
  "encryptedFeedbackCount (update_aggregate f a) = Some (plain (encryptedFeedbackCount a) + 1)"
  by (simp add: update_aggregate_def FHE_defs Let_def)

lemma update_aggregate_total:
  "encryptedTotalRating (update_aggregate f a) =
     Some ((if encryptedFeedbackCount a = None then 0 else plain (encryptedTotalRating a))
           + plain (encryptedRating f))"
  by (simp add: update_aggregate_def FHE_defs Let_def)

lemma update_aggregate_avg:
  "encryptedResponseAvg (update_aggregate f a) =
     (let avg0 = (if encryptedFeedbackCount a = None then 0 else plain (encryptedResponseAvg a));
          count' = plain (encryptedFeedbackCount a) + 1
      in FHE_div (Some (avg0 * count' + plain (encryptedResponseTime f))) (Some count'))"
  by (simp add: update_aggregate_def FHE_defs Let_def)

lemma update_aggregate_agrees_with_spec:
  "encryptedTotalRating (update_aggregate f a) = encryptedTotalRating (updateAggregate_spec f a)"
  "encryptedFeedbackCount (update_aggregate f a) = encryptedFeedbackCount (updateAggregate_spec f a)"
  "encryptedImprovementScore (update_aggregate f a) =
     encryptedImprovementScore (updateAggregate_spec f a)"
  by (simp_all add: update_aggregate_def updateAggregate_spec_def calculateImprovementScore_def
        FHE_defs Let_def add.commute)

lemma serviceAggregates_update:
  "serviceAggregates (updateServiceAggregates i s) =
     (serviceAggregates s)(1 := update_aggregate (feedbacks s i) (serviceAggregates s 1))"
  by (simp add: updateServiceAggregates_def Let_def)

lemma feedbacks_update [simp]: "feedbacks (updateServiceAggregates i s) = feedbacks s"
  by (simp add: updateServiceAggregates_def Let_def)

lemma decrypted_update [simp]:
  "decryptedAggregates (updateServiceAggregates i s) = decryptedAggregates s"
  by (simp add: updateServiceAggregates_def Let_def)

lemma requests_update [simp]:
  "requestToServiceType (updateServiceAggregates i s) = requestToServiceType s"
  by (simp add: updateServiceAggregates_def Let_def)

lemma double_count_lemma:
  assumes "encryptedFeedbackCount (serviceAggregates s 1) = None \<longrightarrow>
           encryptedTotalRating (serviceAggregates s 1) = None"
  shows "plain (encryptedFeedbackCount
            (serviceAggregates (updateServiceAggregates i (updateServiceAggregates i s)) 1)) =
         plain (encryptedFeedbackCount (serviceAggregates s 1)) + 2"
    and "plain (encryptedTotalRating
            (serviceAggregates (updateServiceAggregates i (updateServiceAggregates i s)) 1)) =
         plain (encryptedTotalRating (serviceAggregates s 1)) +
         2 * plain (encryptedRating (feedbacks s i))"
  using assms
  by (auto simp: serviceAggregates_update update_aggregate_count update_aggregate_total)

lemma storage_inv_constructor: "storage_inv (constructor e)"
  by (simp add: storage_inv_def constructor_def zero_aggregate_def zero_decrypted_def)

lemma storage_inv_authorize:
  "storage_inv s \<Longrightarrow> authorizeManager e m s = Inr s' \<Longrightarrow> storage_inv s'"
  by (auto simp: storage_inv_def authorizeManager_def split: if_splits)

lemma storage_inv_submit:
  "storage_inv s \<Longrightarrow> submitEncryptedFeedback e t r rt c s = Inr s' \<Longrightarrow> storage_inv s'"
  by (auto simp: storage_inv_def submitEncryptedFeedback_def Let_def split: if_splits)

lemma storage_inv_update: "storage_inv s \<Longrightarrow> storage_inv (updateServiceAggregates i s)"
  by (auto simp: storage_inv_def serviceAggregates_update update_aggregate_count
        update_aggregate_total FHE_isInitialized_def)

lemma storage_inv_request:
  "storage_inv s \<Longrightarrow> requestAggregateDecryption e st s = Inr s' \<Longrightarrow> storage_inv s'"
  by (auto simp: storage_inv_def requestAggregateDecryption_def FHE_requestDecryption_def
        Let_def split: if_splits)

lemma storage_inv_decrypt:
  "storage_inv s \<Longrightarrow> decryptAggregateData chk e r ct p s = Inr s' \<Longrightarrow> storage_inv s'"
  by (auto simp: storage_inv_def decryptAggregateData_def Let_def
        split: if_splits option.splits prod.splits)

lemma storage_inv_transact: "storage_inv s \<Longrightarrow> storage_inv (transact chk e c s)"
proof (cases "exec chk e c s")
  case (Inl err)
  assume "storage_inv s"
  with Inl show ?thesis by (simp add: transact_def)
next
  case (Inr s')
  assume inv: "storage_inv s"
  have "storage_inv s'"
  proof (cases c)
    case (AuthorizeManager m)
    with Inr inv show ?thesis by (auto dest: storage_inv_authorize)
  next
    case (SubmitEncryptedFeedback t r rt cm)
    with Inr inv show ?thesis by (auto dest: storage_inv_submit)
  next
    case (UpdateServiceAggregates i)
    with Inr inv show ?thesis by (auto intro: storage_inv_update)
  next
    case (RequestAggregateDecryption st)
    with Inr inv show ?thesis by (auto dest: storage_inv_request)
  next
    case (DecryptAggregateData r ct p)
    with Inr inv show ?thesis by (auto dest: storage_inv_decrypt)
  qed
  with Inr show ?thesis by (simp add: transact_def)
qed

lemma reachable_storage_inv: "reachable chk s \<Longrightarrow> storage_inv s"
  by (induction rule: reachable.induct) (auto intro: storage_inv_constructor storage_inv_transact)

lemma reachable_run: "reachable chk s \<Longrightarrow> reachable chk (run chk txs s)"
proof (induction txs arbitrary: s)
  case Nil
  then show ?case by simp
next
  case (Cons tx txs)
  obtain e c where tx: "tx = (e, c)" by (cases tx)
  from Cons.prems have "reachable chk (transact chk e c s)" by (rule reachable_step)
  from Cons.IH [OF this] tx show ?case by simp
qed

text \<open>A revealed snapshot is never written again.\<close>

lemma revealed_kept_exec:
  "isRevealed (decryptedAggregates s st) \<Longrightarrow> exec chk e c s = Inr s' \<Longrightarrow>
   decryptedAggregates s' st = decryptedAggregates s st"
  by (cases c)
     (auto simp: authorizeManager_def submitEncryptedFeedback_def requestAggregateDecryption_def
        FHE_requestDecryption_def decryptAggregateData_def Let_def
        split: if_splits option.splits prod.splits)

lemma revealed_kept_transact:
  "isRevealed (decryptedAggregates s st) \<Longrightarrow>
   decryptedAggregates (transact chk e c s) st = decryptedAggregates s st"
  by (cases "exec chk e c s") (auto simp: transact_def dest: revealed_kept_exec)

lemma revealed_kept_run:
  "isRevealed (decryptedAggregates s st) \<Longrightarrow>
   decryptedAggregates (run chk txs s) st = decryptedAggregates s st"
proof (induction txs arbitrary: s)
  case Nil
  show ?case by simp
next
  case (Cons tx txs)
  obtain e c where tx: "tx = (e, c)" by (cases tx)
  have step: "decryptedAggregates (transact chk e c s) st = decryptedAggregates s st"
    using Cons.prems by (rule revealed_kept_transact)
  with Cons.prems have "isRevealed (decryptedAggregates (transact chk e c s) st)" by simp
  from Cons.IH [OF this] step tx show ?case by simp
qed

lemma count_after_updates:
  "plain (encryptedFeedbackCount (serviceAggregates (fold updateServiceAggregates ids s) 1)) =
   plain (encryptedFeedbackCount (serviceAggregates s 1)) + of_nat (length ids)"
proof (induction ids arbitrary: s)
  case Nil
  show ?case by simp
next
  case (Cons i ids)
  have "plain (encryptedFeedbackCount (serviceAggregates (updateServiceAggregates i s) 1)) =
        plain (encryptedFeedbackCount (serviceAggregates s 1)) + 1"
    by (simp add: serviceAggregates_update update_aggregate_count)
  with Cons.IH [of "updateServiceAggregates i s"] show ?case by simp
qed

lemma count_after_updates_fresh:
  assumes "n < 2 ^ 32" and "length ids = n"
  shows "unat (plain (encryptedFeedbackCount
           (serviceAggregates (fold updateServiceAggregates ids (constructor e)) 1))) = n"
proof -
  have "plain (encryptedFeedbackCount (serviceAggregates (constructor e) 1)) = 0"
    by (simp add: constructor_def zero_aggregate_def)
  then have "plain (encryptedFeedbackCount
           (serviceAggregates (fold updateServiceAggregates ids (constructor e)) 1)) = of_nat n"
    using count_after_updates [of ids "constructor e"] assms(2) by simp
  moreover have "unat (of_nat n :: uint32) = n"
    using assms(1) by (simp add: unat_of_nat take_bit_nat_eq_self)
  ultimately show ?thesis by simp
qed

lemma reachable_s_first: "reachable sample_oracle s_first"
  unfolding s_first_def by (intro reachable_run reachable_init)

lemma reachable_s_accumulated: "reachable sample_oracle s_accumulated"
  unfolding s_accumulated_def s_second_def by (intro reachable_run reachable_s_first)

lemma reachable_s_pending: "reachable sample_oracle s_pending"
  unfolding s_pending_def s_authorized_def by (intro reachable_run reachable_s_accumulated)

lemma reachable_s_revealed: "reachable sample_oracle s_revealed"
  unfolding s_revealed_def by (intro reachable_run reachable_s_pending)

subsection \<open>The update formulas\<close>

text \<open>
  Claim C1: every call of \<^verbatim>\<open>updateServiceAggregates\<close> (the specification's
  \<open>updateAggregate\<close>) updates the aggregate by the incremental formulas of the
  specification; in particular the new response average is
  \<open>(responseAvg * count + responseTime) / count'\<close> with the count before the update.
  The lemmas \<open>update_aggregate_agrees_with_spec\<close> show that the total, the count and
  the improvement score follow the specification's formulas. The response average does
  not (\<open>update_aggregate_avg\<close>): the source stores the new count in
  \<^verbatim>\<open>aggregate.encryptedFeedbackCount\<close> before it computes \<^verbatim>\<open>totalResponse\<close>, so
  the multiplication reads the count after the update. After one aggregated feedback
  (average 10, count 1), aggregating a feedback with response time 30 stores
  \<open>(10 * 2 + 30) / 2 = 25\<close>, where the specification's formula gives
  \<open>(10 * 1 + 30) / 2 = 20\<close>.
\<close>
theorem update_response_average_differs_from_spec:
  "encryptedResponseAvg (serviceAggregates (updateServiceAggregates 2 s_first) 1) = Some 25 \<and>
   encryptedResponseAvg
     (updateAggregate_spec (feedbacks s_first 2) (serviceAggregates s_first 1)) = Some 20 \<and>
   encryptedResponseAvg (serviceAggregates s_first 1) = Some 10 \<and>
   encryptedFeedbackCount (serviceAggregates s_first 1) = Some 1 \<and>
   encryptedResponseTime (feedbacks s_first 2) = Some 30"
  by code_simp

text \<open>
  Claim C6: after N feedback records have each been aggregated once, the count is N,
  and after each update the response average is the running mean of the response times
  so far. The count part holds (\<open>count_after_updates\<close>,
  \<open>count_after_updates_fresh\<close>). The response average is not the running mean: in
  the specification's own scenario (response times 10, 30, 20) the contract stores 10,
  then 25, then 31, while the means are 10, 20 and 20.
\<close>
theorem response_average_is_not_running_mean:
  "plain (encryptedFeedbackCount (serviceAggregates s_accumulated 1)) = 3 \<and>
   plain (encryptedTotalRating (serviceAggregates s_accumulated 1)) = 12 \<and>
   unat (plain (encryptedResponseAvg (serviceAggregates s_second 1))) = 25 \<and>
   running_mean [10, 30] = 20 \<and>
   unat (plain (encryptedResponseAvg (serviceAggregates s_accumulated 1))) = 31 \<and>
   running_mean [10, 30, 20] = 20"
  by code_simp

subsection \<open>The reveal callback\<close>

text \<open>
  Claim C9: \<^verbatim>\<open>decryptAggregateData\<close> (the specification's \<open>completeReveal\<close>) with a
  request id that is bound to no service type, that is, one that
  \<^verbatim>\<open>requestToServiceType\<close> maps to 0, fails with "Invalid request" and changes
  nothing: no decrypted aggregate and no other part of the storage.
\<close>
theorem unbound_request_rejected:
  assumes "requestToServiceType s requestId = 0"
  shows "decryptAggregateData chk e requestId cleartexts prf s = Inl InvalidRequest \<and>
         transact chk e (DecryptAggregateData requestId cleartexts prf) s = s"
  using assms by (simp add: decryptAggregateData_def transact_def)

text \<open>Request id 5 was never minted in the pending scenario.\<close>
theorem unbound_request_rejected_witness:
  "requestToServiceType s_pending 5 = 0 \<and>
   decryptAggregateData sample_oracle citizen_env 5 (abi_encode 12 31 3 76) [1] s_pending =
     Inl InvalidRequest \<and>
   transact sample_oracle citizen_env (DecryptAggregateData 5 (abi_encode 12 31 3 76) [1])
     s_pending = s_pending"
proof -
  have unbound: "requestToServiceType s_pending 5 = 0" by code_simp
  from unbound unbound_request_rejected [OF unbound] show ?thesis by blast
qed

text \<open>
  Claim C10: the reveal callback does not depend on its caller. The function reads no
  part of the transaction context and the signature check is keyed by the request id,
  the cleartexts and the proof only, so two callers with the same arguments in the same
  state get the same outcome and the same resulting state: any address can complete a
  reveal whose proof verifies.
\<close>
theorem reveal_callback_caller_independent:
  "decryptAggregateData chk e requestId cleartexts prf s =
     decryptAggregateData chk e' requestId cleartexts prf s \<and>
   transact chk e (DecryptAggregateData requestId cleartexts prf) s =
     transact chk e' (DecryptAggregateData requestId cleartexts prf) s"
  by (simp add: decryptAggregateData_def transact_def)

subsection \<open>Frame and double counting of the update\<close>

text \<open>
  Claim C8: \<^verbatim>\<open>updateServiceAggregates\<close> changes the aggregate under the constant
  key 1 and appends the event \<open>AggregationUpdated 1\<close>, and nothing else: the
  aggregate of every other service type is unchanged, the new state is the old one with
  only that aggregate and the event log replaced, and the encrypted service type of the
  feedback record has no influence on the result.
\<close>
theorem update_touches_only_service_type_1:
  "(\<forall>st. st \<noteq> 1 \<longrightarrow>
      serviceAggregates (updateServiceAggregates feedbackId s) st = serviceAggregates s st) \<and>
   updateServiceAggregates feedbackId s =
     s\<lparr>serviceAggregates := (serviceAggregates s)
          (1 := serviceAggregates (updateServiceAggregates feedbackId s) 1),
       events := events s @ [AggregationUpdated 1]\<rparr> \<and>
   serviceAggregates
     (updateServiceAggregates feedbackId
        (s\<lparr>feedbacks := (feedbacks s)
              (feedbackId := (feedbacks s feedbackId)\<lparr>encryptedServiceType := t\<rparr>)\<rparr>)) =
     serviceAggregates (updateServiceAggregates feedbackId s)"
  by (simp add: updateServiceAggregates_def update_aggregate_def Let_def)

text \<open>Service type 2 is untouched when feedback 2 is aggregated.\<close>
theorem update_touches_only_service_type_1_witness:
  "(2 :: uint32) \<noteq> 1 \<and>
   serviceAggregates (updateServiceAggregates 2 s_first) 2 = serviceAggregates s_first 2"
proof -
  have ne: "(2 :: uint32) \<noteq> 1" by simp
  from update_touches_only_service_type_1 [of 2 s_first]
  have "\<forall>st. st \<noteq> 1 \<longrightarrow>
      serviceAggregates (updateServiceAggregates 2 s_first) st = serviceAggregates s_first st"
    by blast
  with ne show ?thesis by blast
qed

text \<open>
  Claim C7: the update is not idempotent. From any state the contract can reach, two
  calls with the same feedback id raise the count by 2 and the total rating by twice
  the rating of that feedback (in 32-bit arithmetic, an uninitialized handle counting
  as 0), and the state after the second call differs from the state after the first.
\<close>
theorem update_twice_double_counts:
  assumes "reachable chk s"
  shows "plain (encryptedFeedbackCount (serviceAggregates
            (updateServiceAggregates feedbackId (updateServiceAggregates feedbackId s)) 1)) =
           plain (encryptedFeedbackCount (serviceAggregates s 1)) + 2 \<and>
         plain (encryptedTotalRating (serviceAggregates
            (updateServiceAggregates feedbackId (updateServiceAggregates feedbackId s)) 1)) =
           plain (encryptedTotalRating (serviceAggregates s 1)) +
           2 * plain (encryptedRating (feedbacks s feedbackId)) \<and>
         updateServiceAggregates feedbackId (updateServiceAggregates feedbackId s) \<noteq>
           updateServiceAggregates feedbackId s"
proof -
  let ?s1 = "updateServiceAggregates feedbackId s"
  let ?s2 = "updateServiceAggregates feedbackId ?s1"
  from assms have "storage_inv s" by (rule reachable_storage_inv)
  then have total_unset: "encryptedFeedbackCount (serviceAggregates s 1) = None \<longrightarrow>
      encryptedTotalRating (serviceAggregates s 1) = None"
    by (simp add: storage_inv_def)
  note dc = double_count_lemma [OF total_unset, of feedbackId]
  have "encryptedFeedbackCount (serviceAggregates ?s2 1) \<noteq>
        encryptedFeedbackCount (serviceAggregates ?s1 1)"
    by (simp add: serviceAggregates_update update_aggregate_count)
  then have "?s2 \<noteq> ?s1" by auto
  with dc show ?thesis by simp
qed

text \<open>
  Feedback 2 (rating 3) aggregated twice on top of one aggregated feedback: the count
  goes from 1 to 3 and the total from 5 to 11.
\<close>
theorem update_twice_double_counts_witness:
  "reachable sample_oracle s_first \<and>
   plain (encryptedFeedbackCount (serviceAggregates s_first 1)) = 1 \<and>
   plain (encryptedTotalRating (serviceAggregates s_first 1)) = 5 \<and>
   plain (encryptedFeedbackCount (serviceAggregates
      (updateServiceAggregates 2 (updateServiceAggregates 2 s_first)) 1)) = 3 \<and>
   plain (encryptedTotalRating (serviceAggregates
      (updateServiceAggregates 2 (updateServiceAggregates 2 s_first)) 1)) = 11"
proof -
  have c: "plain (encryptedFeedbackCount (serviceAggregates s_first 1)) = 1" by code_simp
  have t: "plain (encryptedTotalRating (serviceAggregates s_first 1)) = 5" by code_simp
  have r: "plain (encryptedRating (feedbacks s_first 2)) = 3" by code_simp
  from update_twice_double_counts [OF reachable_s_first, of 2] c t r reachable_s_first
  show ?thesis by simp
qed

subsection \<open>Completing a reveal\<close>

text \<open>
  Claim C5: when \<^verbatim>\<open>decryptAggregateData\<close> succeeds, the cleartexts decode to four
  32-bit integers with a nonzero count, and the snapshot of the bound service type holds
  \<open>avgRating = totalRating div count\<close> (exact integer division of the revealed
  plaintexts, computed from the bundle alone and not from the stored aggregate), the
  other three plaintexts as delivered, and \<open>isRevealed = True\<close>. In particular the
  plaintexts (12, 20, 3, improvementScore) give \<open>avgRating = 4\<close>.
\<close>
theorem reveal_stores_quotient_and_copies:
  assumes "decryptAggregateData chk e requestId cleartexts prf s = Inr s'"
  shows "\<exists>totalRating avgResponse count impScore.
           abi_decode cleartexts = Some (totalRating, avgResponse, count, impScore) \<and>
           count \<noteq> 0 \<and>
           decryptedAggregates s' (requestToServiceType s requestId) =
             \<lparr>avgRating = totalRating div count, avgResponseTime = avgResponse,
              feedbackCount_d = count, improvementScore = impScore, isRevealed = True\<rparr> \<and>
           unat (totalRating div count) = unat totalRating div unat count \<and>
           (totalRating = 12 \<and> avgResponse = 20 \<and> count = 3 \<longrightarrow>
              avgRating (decryptedAggregates s' (requestToServiceType s requestId)) = 4)"
proof -
  from assms obtain totalRating avgResponse count impScore where
    dec: "abi_decode cleartexts = Some (totalRating, avgResponse, count, impScore)" and
    nz: "count \<noteq> 0" and
    s': "s' = s\<lparr>decryptedAggregates := (decryptedAggregates s)
                 (requestToServiceType s requestId :=
                    (decryptedAggregates s (requestToServiceType s requestId))
                      \<lparr>avgRating := totalRating div count,
                       avgResponseTime := avgResponse,
                       feedbackCount_d := count,
                       improvementScore := impScore,
                       isRevealed := True\<rparr>),
               events := events s @ [AggregateDecrypted (requestToServiceType s requestId)]\<rparr>"
    by (auto simp: decryptAggregateData_def Let_def split: if_splits option.splits prod.splits)
  have snap: "decryptedAggregates s' (requestToServiceType s requestId) =
             \<lparr>avgRating = totalRating div count, avgResponseTime = avgResponse,
              feedbackCount_d = count, improvementScore = impScore, isRevealed = True\<rparr>"
    by (simp add: s')
  have ex: "totalRating = 12 \<and> avgResponse = 20 \<and> count = 3 \<longrightarrow>
              avgRating (decryptedAggregates s' (requestToServiceType s requestId)) = 4"
    by (auto simp: snap)
  from dec nz snap ex show ?thesis by (simp add: unat_div)
qed

text \<open>The pending scenario, completed with the bundle (12, 20, 3, 76).\<close>
theorem reveal_stores_quotient_and_copies_witness:
  "\<exists>s'. decryptAggregateData sample_oracle citizen_env 0 (abi_encode 12 20 3 76) [1] s_pending
           = Inr s' \<and>
         decryptedAggregates s' 1 =
           \<lparr>avgRating = 4, avgResponseTime = 20, feedbackCount_d = 3, improvementScore = 76,
            isRevealed = True\<rparr>"
proof -
  have "\<not> isl (decryptAggregateData sample_oracle citizen_env 0 (abi_encode 12 20 3 76) [1]
                  s_pending)"
    by code_simp
  then obtain s' where ok:
    "decryptAggregateData sample_oracle citizen_env 0 (abi_encode 12 20 3 76) [1] s_pending
       = Inr s'"
    by (cases "decryptAggregateData sample_oracle citizen_env 0 (abi_encode 12 20 3 76) [1]
                 s_pending") auto
  have dec: "abi_decode (abi_encode 12 20 3 76) = Some (12, 20, 3, 76)" by code_simp
  have bound: "requestToServiceType s_pending 0 = 1" by code_simp
  from reveal_stores_quotient_and_copies [OF ok] dec bound
  have "decryptedAggregates s' 1 =
           \<lparr>avgRating = 4, avgResponseTime = 20, feedbackCount_d = 3, improvementScore = 76,
            isRevealed = True\<rparr>"
    by auto
  with ok show ?thesis by blast
qed

text \<open>
  Claim C4 says that every reveal callback with a bound request id and a proof that
  fails verification fails with \<open>ProofInvalid\<close>, and that a later callback with a
  valid proof for the same request id succeeds. Neither holds as worded. The source
  checks the revealed flag before the proof: after the reveal of the scenario, request
  id 0 is still bound to service type 1, and a callback with the rejected proof
  \<open>[]\<close> fails with "Already decrypted". And a proof that verifies is not enough for
  the retry: in the pending scenario, after the failed attempt, a callback whose proof
  the oracle accepts and whose bundle carries the count 0 reverts in the checked
  division \<^verbatim>\<open>totalRating / count\<close>.
\<close>
theorem invalid_proof_claim_counterexample:
  "requestToServiceType s_revealed 0 = 1 \<and>
   \<not> sample_oracle 0 (abi_encode 12 31 3 76) [] \<and>
   decryptAggregateData sample_oracle citizen_env 0 (abi_encode 12 31 3 76) [] s_revealed =
     Inl AlreadyDecrypted \<and>
   requestToServiceType s_pending 0 = 1 \<and>
   decryptAggregateData sample_oracle citizen_env 0 (abi_encode 12 31 3 76) [] s_pending =
     Inl ProofInvalid \<and>
   sample_oracle 0 (abi_encode 12 31 0 76) [1] \<and>
   decryptAggregateData sample_oracle citizen_env 0 (abi_encode 12 31 0 76) [1]
     (transact sample_oracle citizen_env (DecryptAggregateData 0 (abi_encode 12 31 3 76) [])
        s_pending) = Inl PanicDivisionByZero"
proof -
  have a: "requestToServiceType s_revealed 0 = 1" by code_simp
  have b: "\<not> sample_oracle 0 (abi_encode 12 31 3 76) []" by (simp add: sample_oracle_def)
  have c: "decryptAggregateData sample_oracle citizen_env 0 (abi_encode 12 31 3 76) []
             s_revealed = Inl AlreadyDecrypted" by code_simp
  have d: "requestToServiceType s_pending 0 = 1" by code_simp
  have e: "decryptAggregateData sample_oracle citizen_env 0 (abi_encode 12 31 3 76) []
             s_pending = Inl ProofInvalid" by code_simp
  have f: "sample_oracle 0 (abi_encode 12 31 0 76) [1]" by (simp add: sample_oracle_def)
  have g: "decryptAggregateData sample_oracle citizen_env 0 (abi_encode 12 31 0 76) [1]
     (transact sample_oracle citizen_env (DecryptAggregateData 0 (abi_encode 12 31 3 76) [])
        s_pending) = Inl PanicDivisionByZero" by code_simp
  from a b c d e f g show ?thesis by blast
qed

text \<open>
  Claim C4, amended: a reveal callback for a request id that is bound to a service type
  whose snapshot is still unrevealed, with a proof that fails verification, fails with
  \<open>ProofInvalid\<close> and changes nothing: the snapshot stays unrevealed and the binding
  stays. The request is not invalidated: a later callback for the same request id, by
  any caller, succeeds and reveals the snapshot exactly when its proof verifies and its
  bundle decodes to four integers with a nonzero count, as it would have without the
  failed attempt.
\<close>
theorem invalid_proof_keeps_request_pending:
  assumes "requestToServiceType s requestId \<noteq> 0"
    and "\<not> isRevealed (decryptedAggregates s (requestToServiceType s requestId))"
    and "\<not> chk requestId cleartexts prf"
  shows "decryptAggregateData chk e requestId cleartexts prf s = Inl ProofInvalid \<and>
         transact chk e (DecryptAggregateData requestId cleartexts prf) s = s \<and>
         (\<forall>e' cleartexts' prf'.
            (\<exists>s'. decryptAggregateData chk e' requestId cleartexts' prf'
                     (transact chk e (DecryptAggregateData requestId cleartexts prf) s) = Inr s' \<and>
                  isRevealed (decryptedAggregates s' (requestToServiceType s requestId))) =
            (chk requestId cleartexts' prf' \<and>
             (\<exists>totalRating avgResponse count impScore.
                abi_decode cleartexts' = Some (totalRating, avgResponse, count, impScore) \<and>
                count \<noteq> 0)))"
proof -
  have fails: "decryptAggregateData chk e requestId cleartexts prf s = Inl ProofInvalid"
    using assms by (simp add: decryptAggregateData_def)
  then have same: "transact chk e (DecryptAggregateData requestId cleartexts prf) s = s"
    by (simp add: transact_def)
  have retry:
    "(\<exists>s'. decryptAggregateData chk e' requestId cleartexts' prf' s = Inr s' \<and>
           isRevealed (decryptedAggregates s' (requestToServiceType s requestId))) =
     (chk requestId cleartexts' prf' \<and>
      (\<exists>totalRating avgResponse count impScore.
         abi_decode cleartexts' = Some (totalRating, avgResponse, count, impScore) \<and>
         count \<noteq> 0))"
    for e' cleartexts' prf'
    using assms(1,2)
    by (auto simp: decryptAggregateData_def Let_def split: option.splits)
  from fails same retry show ?thesis by simp
qed

text \<open>
  In the pending scenario the proof \<open>[]\<close> is rejected by the sample oracle and the
  proof \<open>[1]\<close> is accepted afterwards for the same request id 0.
\<close>
theorem invalid_proof_keeps_request_pending_witness:
  "decryptAggregateData sample_oracle citizen_env 0 (abi_encode 12 31 3 76) [] s_pending =
     Inl ProofInvalid \<and>
   transact sample_oracle citizen_env (DecryptAggregateData 0 (abi_encode 12 31 3 76) [])
     s_pending = s_pending \<and>
   (\<exists>s'. decryptAggregateData sample_oracle manager_env 0 (abi_encode 12 31 3 76) [1]
            (transact sample_oracle citizen_env
               (DecryptAggregateData 0 (abi_encode 12 31 3 76) []) s_pending) = Inr s' \<and>
         isRevealed (decryptedAggregates s' 1))"
proof -
  have bound: "requestToServiceType s_pending 0 = 1" by code_simp
  then have b: "requestToServiceType s_pending 0 \<noteq> 0" by simp
  have "\<not> isRevealed (decryptedAggregates s_pending 1)" by code_simp
  with bound have pending:
    "\<not> isRevealed (decryptedAggregates s_pending (requestToServiceType s_pending 0))" by simp
  have bad: "\<not> sample_oracle 0 (abi_encode 12 31 3 76) []" by (simp add: sample_oracle_def)
  have good: "sample_oracle 0 (abi_encode 12 31 3 76) [1]" by (simp add: sample_oracle_def)
  have dec: "abi_decode (abi_encode 12 31 3 76) = Some (12, 31, 3, 76)" by code_simp
  have nz: "(3 :: uint32) \<noteq> 0" by simp
  from invalid_proof_keeps_request_pending [of s_pending 0 sample_oracle
      "abi_encode 12 31 3 76" "[]" citizen_env, OF b pending bad] good dec nz bound
  show ?thesis by auto
qed

subsection \<open>Requesting a reveal\<close>

text \<open>
  Claim C3: \<^verbatim>\<open>requestAggregateDecryption\<close> (the specification's \<open>requestReveal\<close>)
  succeeds exactly when the caller is an authorized manager, the aggregate of the
  service type is initialized and its snapshot is not revealed. The checks run in this
  order: a non-manager fails with "Not authorized" (Unauthorized) and the state is
  unchanged; a manager asking for an absent aggregate fails with "No data" (NotFound);
  a manager asking for an existing aggregate whose snapshot is revealed fails with
  "Already decrypted" (AlreadyRevealed). On success the request id taken from the
  oracle's counter is bound to the service type, the counter advances, and no other
  binding changes.
\<close>
theorem request_reveal_contract:
  "((\<exists>s'. requestAggregateDecryption e serviceType s = Inr s') =
      (authorizedManagers s (sender e) \<and>
       FHE_isInitialized (encryptedFeedbackCount (serviceAggregates s serviceType)) \<and>
       \<not> isRevealed (decryptedAggregates s serviceType))) \<and>
   (\<not> authorizedManagers s (sender e) \<longrightarrow>
      requestAggregateDecryption e serviceType s = Inl NotAuthorized \<and>
      transact chk e (RequestAggregateDecryption serviceType) s = s) \<and>
   (authorizedManagers s (sender e) \<and>
    \<not> FHE_isInitialized (encryptedFeedbackCount (serviceAggregates s serviceType)) \<longrightarrow>
      requestAggregateDecryption e serviceType s = Inl NoData) \<and>
   (authorizedManagers s (sender e) \<and>
    FHE_isInitialized (encryptedFeedbackCount (serviceAggregates s serviceType)) \<and>
    isRevealed (decryptedAggregates s serviceType) \<longrightarrow>
      requestAggregateDecryption e serviceType s = Inl AlreadyDecrypted) \<and>
   (\<forall>s'. requestAggregateDecryption e serviceType s = Inr s' \<longrightarrow>
      requestToServiceType s' (counterRequest s) = serviceType \<and>
      counterRequest s' = counterRequest s + 1 \<and>
      (\<forall>r. r \<noteq> counterRequest s \<longrightarrow> requestToServiceType s' r = requestToServiceType s r))"
  by (auto simp: requestAggregateDecryption_def FHE_requestDecryption_def transact_def Let_def)

text \<open>
  The manager's request in the scenario succeeds and binds id 0 to service type 1; the
  citizen is rejected; service type 2 has no data; after the reveal the manager is
  told that the snapshot is already decrypted.
\<close>
theorem request_reveal_contract_witness:
  "(\<exists>s'. requestAggregateDecryption manager_env 1 s_authorized = Inr s' \<and>
         requestToServiceType s' 0 = 1) \<and>
   requestAggregateDecryption citizen_env 1 s_authorized = Inl NotAuthorized \<and>
   transact sample_oracle citizen_env (RequestAggregateDecryption 1) s_authorized =
     s_authorized \<and>
   requestAggregateDecryption manager_env 2 s_authorized = Inl NoData \<and>
   requestAggregateDecryption manager_env 1 s_revealed = Inl AlreadyDecrypted"
proof -
  have m: "authorizedManagers s_authorized (sender manager_env)" by code_simp
  have nm: "\<not> authorizedManagers s_authorized (sender citizen_env)" by code_simp
  have i1: "FHE_isInitialized (encryptedFeedbackCount (serviceAggregates s_authorized 1))"
    by code_simp
  have i2: "\<not> FHE_isInitialized (encryptedFeedbackCount (serviceAggregates s_authorized 2))"
    by code_simp
  have nr: "\<not> isRevealed (decryptedAggregates s_authorized 1)" by code_simp
  have c0: "counterRequest s_authorized = 0" by code_simp
  have m': "authorizedManagers s_revealed (sender manager_env)" by code_simp
  have i': "FHE_isInitialized (encryptedFeedbackCount (serviceAggregates s_revealed 1))"
    by code_simp
  have r': "isRevealed (decryptedAggregates s_revealed 1)" by code_simp
  from request_reveal_contract [of manager_env 1 s_authorized sample_oracle] m i1 nr c0
  have a: "\<exists>s'. requestAggregateDecryption manager_env 1 s_authorized = Inr s' \<and>
         requestToServiceType s' 0 = 1"
    by metis
  from request_reveal_contract [of citizen_env 1 s_authorized sample_oracle] nm
  have b: "requestAggregateDecryption citizen_env 1 s_authorized = Inl NotAuthorized \<and>
     transact sample_oracle citizen_env (RequestAggregateDecryption 1) s_authorized =
       s_authorized"
    by blast
  from request_reveal_contract [of manager_env 2 s_authorized sample_oracle] m i2
  have c: "requestAggregateDecryption manager_env 2 s_authorized = Inl NoData" by blast
  from request_reveal_contract [of manager_env 1 s_revealed sample_oracle] m' i' r'
  have d: "requestAggregateDecryption manager_env 1 s_revealed = Inl AlreadyDecrypted" by blast
  from a b c d show ?thesis by blast
qed

subsection \<open>Write-once snapshots\<close>

text \<open>
  Claim C2 says that once a snapshot is revealed, every further
  \<^verbatim>\<open>requestAggregateDecryption\<close> for its service type fails with "Already decrypted".
  That is not so for a caller who is not a manager: the \<^verbatim>\<open>onlyManager\<close> modifier
  runs first and the call fails with "Not authorized". The citizen of the scenario asks
  for service type 1 after its reveal.
\<close>
theorem revealed_request_by_non_manager_counterexample:
  "isRevealed (decryptedAggregates s_revealed 1) \<and>
   requestAggregateDecryption citizen_env 1 s_revealed \<noteq> Inl AlreadyDecrypted"
proof -
  have r: "isRevealed (decryptedAggregates s_revealed 1)" by code_simp
  have "requestAggregateDecryption citizen_env 1 s_revealed = Inl NotAuthorized" by code_simp
  with r show ?thesis by simp
qed

text \<open>
  Claim C2, amended: in every state the contract can reach, once the snapshot of a
  service type is revealed, no sequence of calls changes that snapshot; every reveal
  callback for a request id bound to that service type fails with "Already decrypted",
  whatever the cleartexts and the proof (so also a second delivery of the same request
  id); and every reveal request for that service type fails, with "Already decrypted"
  when the caller is an authorized manager and with "Not authorized" otherwise.
\<close>
theorem revealed_snapshot_write_once:
  assumes "reachable chk s" and "isRevealed (decryptedAggregates s serviceType)"
  shows "decryptedAggregates (run chk txs s) serviceType = decryptedAggregates s serviceType \<and>
         (\<forall>e requestId cleartexts prf.
            requestToServiceType (run chk txs s) requestId = serviceType \<longrightarrow>
            decryptAggregateData chk e requestId cleartexts prf (run chk txs s) =
              Inl AlreadyDecrypted) \<and>
         (\<forall>e. requestAggregateDecryption e serviceType (run chk txs s) =
              Inl (if authorizedManagers (run chk txs s) (sender e)
                   then AlreadyDecrypted else NotAuthorized))"
proof -
  let ?s = "run chk txs s"
  have kept: "decryptedAggregates ?s serviceType = decryptedAggregates s serviceType"
    using assms(2) by (rule revealed_kept_run)
  with assms(2) have rev: "isRevealed (decryptedAggregates ?s serviceType)" by simp
  from assms(1) have "reachable chk ?s" by (rule reachable_run)
  then have inv: "storage_inv ?s" by (rule reachable_storage_inv)
  from inv rev have nz: "serviceType \<noteq> 0"
    and init: "FHE_isInitialized (encryptedFeedbackCount (serviceAggregates ?s serviceType))"
    by (auto simp: storage_inv_def)
  have complete: "decryptAggregateData chk e requestId cleartexts pf ?s = Inl AlreadyDecrypted"
    if "requestToServiceType ?s requestId = serviceType" for e requestId cleartexts pf
    using that nz rev by (simp add: decryptAggregateData_def)
  have request: "requestAggregateDecryption e serviceType ?s =
      Inl (if authorizedManagers ?s (sender e) then AlreadyDecrypted else NotAuthorized)" for e
    using init rev by (simp add: requestAggregateDecryption_def)
  from kept complete request show ?thesis by blast
qed

text \<open>
  After the reveal of the scenario, one more update and a second delivery of request 0
  leave the snapshot of service type 1 as it was.
\<close>
theorem revealed_snapshot_write_once_witness:
  "reachable sample_oracle s_revealed \<and> isRevealed (decryptedAggregates s_revealed 1) \<and>
   decryptedAggregates
     (run sample_oracle
        [(citizen_env, UpdateServiceAggregates 1),
         (manager_env, DecryptAggregateData 0 (abi_encode 1 1 1 1) [1])] s_revealed) 1 =
     decryptedAggregates s_revealed 1 \<and>
   decryptAggregateData sample_oracle manager_env 0 (abi_encode 1 1 1 1) [1]
     (run sample_oracle
        [(citizen_env, UpdateServiceAggregates 1),
         (manager_env, DecryptAggregateData 0 (abi_encode 1 1 1 1) [1])] s_revealed) =
     Inl AlreadyDecrypted \<and>
   requestAggregateDecryption manager_env 1
     (run sample_oracle
        [(citizen_env, UpdateServiceAggregates 1),
         (manager_env, DecryptAggregateData 0 (abi_encode 1 1 1 1) [1])] s_revealed) =
     Inl AlreadyDecrypted"
proof -
  let ?txs = "[(citizen_env, UpdateServiceAggregates 1),
         (manager_env, DecryptAggregateData 0 (abi_encode 1 1 1 1) [1])]"
  have r: "isRevealed (decryptedAggregates s_revealed 1)" by code_simp
  have bound: "requestToServiceType (run sample_oracle ?txs s_revealed) 0 = 1" by code_simp
  have m: "authorizedManagers (run sample_oracle ?txs s_revealed) (sender manager_env)"
    by code_simp
  from revealed_snapshot_write_once [OF reachable_s_revealed r, of ?txs] bound m
    reachable_s_revealed r
  show ?thesis by simp
qed

end
